theory Spec2Isabelle
  imports Complex_Main
begin

section \<open>JavaScript numbers\<close>

text \<open>
  The program computes with JavaScript numbers. A finite number is modelled by the real
  it denotes: arithmetic on finite numbers is exact here, so rounding, overflow and the
  single-precision storage of a buffer attribute are outside the model, and there is one
  zero (a division of a positive number by zero gives \<open>PInf\<close>, as a division by \<open>+0\<close>
  does). The values that are not finite numbers are kept apart, because the program can
  reach them: \<open>Math.sqrt\<close> of a negative number is \<open>NaN\<close> and a division by a zero
  period is infinite. A value that may be \<open>undefined\<close> (a read outside a typed array)
  is a \<open>jsnum option\<close>, with \<open>None\<close> for \<open>undefined\<close>.
\<close>

datatype jsnum = Num real | PInf | NInf | NaN

fun js_add :: "jsnum \<Rightarrow> jsnum \<Rightarrow> jsnum" where
  "js_add (Num a) (Num b) = Num (a + b)"
| "js_add (Num a) PInf = PInf"
| "js_add (Num a) NInf = NInf"
| "js_add PInf (Num b) = PInf"
| "js_add PInf PInf = PInf"
| "js_add NInf (Num b) = NInf"
| "js_add NInf NInf = NInf"
| "js_add _ _ = NaN"

fun js_neg :: "jsnum \<Rightarrow> jsnum" where
  "js_neg (Num a) = Num (- a)"
| "js_neg PInf = NInf"
| "js_neg NInf = PInf"
| "js_neg _ = NaN"

definition js_sub :: "jsnum \<Rightarrow> jsnum \<Rightarrow> jsnum" where
  "js_sub u v = js_add u (js_neg v)"

fun js_mul :: "jsnum \<Rightarrow> jsnum \<Rightarrow> jsnum" where
  "js_mul (Num a) (Num b) = Num (a * b)"
| "js_mul (Num a) PInf = (if 0 < a then PInf else if a < 0 then NInf else NaN)"
| "js_mul (Num a) NInf = (if 0 < a then NInf else if a < 0 then PInf else NaN)"
| "js_mul PInf (Num b) = (if 0 < b then PInf else if b < 0 then NInf else NaN)"
| "js_mul NInf (Num b) = (if 0 < b then NInf else if b < 0 then PInf else NaN)"
| "js_mul PInf PInf = PInf"
| "js_mul PInf NInf = NInf"
| "js_mul NInf PInf = NInf"
| "js_mul NInf NInf = PInf"
| "js_mul _ _ = NaN"

fun js_div :: "jsnum \<Rightarrow> jsnum \<Rightarrow> jsnum" where
  "js_div (Num a) (Num b) =
     (if b \<noteq> 0 then Num (a / b)
      else if 0 < a then PInf else if a < 0 then NInf else NaN)"
| "js_div (Num a) PInf = Num 0"
| "js_div (Num a) NInf = Num 0"
| "js_div PInf (Num b) = (if 0 \<le> b then PInf else NInf)"
| "js_div NInf (Num b) = (if 0 \<le> b then NInf else PInf)"
| "js_div _ _ = NaN"

text \<open>\<open>Math.sqrt\<close>, \<open>Math.floor\<close> and the remainder operator \<open>%\<close>, whose result takes
  the sign of the dividend (the quotient is truncQuotd towards zero).\<close>

fun js_sqrt :: "jsnum \<Rightarrow> jsnum" where
  "js_sqrt (Num a) = (if a < 0 then NaN else Num (sqrt a))"
| "js_sqrt PInf = PInf"
| "js_sqrt _ = NaN"

fun js_floor :: "jsnum \<Rightarrow> jsnum" where
  "js_floor (Num a) = Num (of_int \<lfloor>a\<rfloor>)"
| "js_floor PInf = PInf"
| "js_floor NInf = NInf"
| "js_floor _ = NaN"

definition truncQuot :: "real \<Rightarrow> int" where
  "truncQuot r = (if 0 \<le> r then \<lfloor>r\<rfloor> else \<lceil>r\<rceil>)"

fun js_rem :: "jsnum \<Rightarrow> jsnum \<Rightarrow> jsnum" where
  "js_rem (Num a) (Num b) =
     (if b = 0 then NaN else Num (a - b * of_int (truncQuot (a / b))))"
| "js_rem (Num a) PInf = Num a"
| "js_rem (Num a) NInf = Num a"
| "js_rem _ _ = NaN"

section \<open>The parts of three.js the program calls\<close>

text \<open>
  \<open>Vector3\<close>: three components. The points of a geometry hold numbers; the position of
  a mesh holds what the program writes there, which may be \<open>undefined\<close>. \<open>set\<close> keeps
  the old \<open>z\<close> when its third argument is \<open>undefined\<close> (the library uses this for calls
  with two arguments).
\<close>

datatype 'a Vector3 = Vector3 (vx: 'a) (vy: 'a) (vz: 'a)

definition set_xyz ::
  "jsnum option Vector3 \<Rightarrow> jsnum option \<Rightarrow> jsnum option \<Rightarrow> jsnum option \<Rightarrow> jsnum option Vector3"
  where
  "set_xyz v px py pz = Vector3 px py (case pz of None \<Rightarrow> vz v | Some n \<Rightarrow> Some n)"

text \<open>
  \<open>EllipseCurve\<close> and \<open>Curve.getPoints\<close>. The radii are the only fields that the
  program can make non-finite; the angles it passes are finite.
\<close>

record EllipseCurve =
  aX :: real
  aY :: real
  xRadius :: jsnum
  yRadius :: jsnum
  aStartAngle :: real
  aEndAngle :: real
  aClockwise :: bool
  aRotation :: real

definition EPSILON :: real where
  "EPSILON = 1 / 2 ^ 52"

text \<open>The two loops of \<open>getPoint\<close> that bring the angle difference into \<open>0 .. 2 PI\<close>:
  \<open>while (deltaAngle < 0) deltaAngle += twoPi\<close> and
  \<open>while (deltaAngle > twoPi) deltaAngle -= twoPi\<close>.\<close>

function raiseDelta :: "real \<Rightarrow> real" where
  "raiseDelta d = (if d < 0 then raiseDelta (d + 2 * pi) else d)"
  by pat_completeness auto
termination
proof (relation "measure (\<lambda>d. nat \<lceil>- d / (2 * pi)\<rceil>)")
  show "wf (measure (\<lambda>d. nat \<lceil>- d / (2 * pi)\<rceil>))" by simp
next
  fix d :: real
  assume neg: "d < 0"
  have shift: "- (d + 2 * pi) / (2 * pi) = - d / (2 * pi) - 1"
    by (simp add: field_simps)
  have "0 < (- d) / (2 * pi)" using neg by (intro divide_pos_pos) simp_all
  then have "1 \<le> \<lceil>- d / (2 * pi)\<rceil>" by simp
  moreover have "\<lceil>- d / (2 * pi) - 1\<rceil> = \<lceil>- d / (2 * pi)\<rceil> - 1" by simp
  ultimately show "(d + 2 * pi, d) \<in> measure (\<lambda>d. nat \<lceil>- d / (2 * pi)\<rceil>)"
    unfolding shift in_measure by linarith
qed

function lowerDelta :: "real \<Rightarrow> real" where
  "lowerDelta d = (if 2 * pi < d then lowerDelta (d - 2 * pi) else d)"
  by pat_completeness auto
termination
proof (relation "measure (\<lambda>d. nat \<lceil>d / (2 * pi)\<rceil>)")
  show "wf (measure (\<lambda>d. nat \<lceil>d / (2 * pi)\<rceil>))" by simp
next
  fix d :: real
  assume big: "2 * pi < d"
  have shift: "(d - 2 * pi) / (2 * pi) = d / (2 * pi) - 1"
    by (simp add: field_simps)
  have "1 < d / (2 * pi)" using big by (simp add: field_simps)
  then have "2 \<le> \<lceil>d / (2 * pi)\<rceil>" by linarith
  moreover have "\<lceil>d / (2 * pi) - 1\<rceil> = \<lceil>d / (2 * pi)\<rceil> - 1" by simp
  ultimately show "(d - 2 * pi, d) \<in> measure (\<lambda>d. nat \<lceil>d / (2 * pi)\<rceil>)"
    unfolding shift in_measure by linarith
qed

definition deltaAngle :: "EllipseCurve \<Rightarrow> real" where
  "deltaAngle c =
     (let d0 = aEndAngle c - aStartAngle c;
          samePoints = \<bar>d0\<bar> < EPSILON;
          d1 = lowerDelta (raiseDelta d0);
          d2 = (if d1 < EPSILON then (if samePoints then 0 else 2 * pi) else d1)
      in if aClockwise c \<and> \<not> samePoints
         then (if d2 = 2 * pi then - (2 * pi) else d2 - 2 * pi)
         else d2)"

definition getPoint :: "EllipseCurve \<Rightarrow> real \<Rightarrow> jsnum \<times> jsnum" where
  "getPoint c t =
     (let angle = aStartAngle c + t * deltaAngle c;
          px = js_add (Num (aX c)) (js_mul (xRadius c) (Num (cos angle)));
          py = js_add (Num (aY c)) (js_mul (yRadius c) (Num (sin angle)))
      in if aRotation c \<noteq> 0
         then (let co = Num (cos (aRotation c));
                   si = Num (sin (aRotation c));
                   tx = js_sub px (Num (aX c));
                   ty = js_sub py (Num (aY c))
               in (js_add (js_sub (js_mul tx co) (js_mul ty si)) (Num (aX c)),
                   js_add (js_add (js_mul tx si) (js_mul ty co)) (Num (aY c))))
         else (px, py))"

text \<open>\<open>getPoints(divisions)\<close> samples the parameters \<open>d / divisions\<close> for
  \<open>d = 0 .. divisions\<close>, both ends included. With no division the single parameter is
  \<open>0 / 0\<close>, which is \<open>NaN\<close>, and so are both coordinates of the single point.\<close>

definition getPoints :: "EllipseCurve \<Rightarrow> nat \<Rightarrow> (jsnum \<times> jsnum) list" where
  "getPoints c divisions =
     (if divisions = 0 then [(NaN, NaN)]
      else map (\<lambda>d. getPoint c (real d / real divisions)) [0..<divisions + 1])"

text \<open>
  A \<open>BufferGeometry\<close> is modelled by its position attribute, a list of points
  (\<open>count\<close> is its length). \<open>setFromPoints\<close> gives a two-dimensional point the
  \<open>z\<close> coordinate 0.
\<close>

type_synonym BufferGeometry = "jsnum Vector3 list"

definition setFromPoints :: "(jsnum \<times> jsnum) list \<Rightarrow> BufferGeometry" where
  "setFromPoints ps = map (\<lambda>(px, py). Vector3 px py (Num 0)) ps"

text \<open>
  \<open>rotateX\<close> and \<open>rotateY\<close> build a rotation matrix (sixteen elements, stored by
  columns) and apply it to every point with \<open>Vector3.applyMatrix4\<close>, which divides by
  the perspective component.
\<close>

definition makeRotationX :: "real \<Rightarrow> real list" where
  "makeRotationX theta =
     (let c = cos theta; s = sin theta
      in [1, 0, 0, 0,  0, c, s, 0,  0, - s, c, 0,  0, 0, 0, 1])"

definition makeRotationY :: "real \<Rightarrow> real list" where
  "makeRotationY theta =
     (let c = cos theta; s = sin theta
      in [c, 0, - s, 0,  0, 1, 0, 0,  s, 0, c, 0,  0, 0, 0, 1])"

definition row :: "real list \<Rightarrow> nat \<Rightarrow> jsnum Vector3 \<Rightarrow> jsnum" where
  "row m k v =
     js_add (js_add (js_add (js_mul (Num (m ! k)) (vx v)) (js_mul (Num (m ! (k + 4))) (vy v)))
                    (js_mul (Num (m ! (k + 8))) (vz v)))
            (Num (m ! (k + 12)))"

definition applyMatrix4 :: "real list \<Rightarrow> jsnum Vector3 \<Rightarrow> jsnum Vector3" where
  "applyMatrix4 m v =
     (let w = js_div (Num 1) (row m 3 v)
      in Vector3 (js_mul (row m 0 v) w) (js_mul (row m 1 v) w) (js_mul (row m 2 v) w))"

definition rotateX :: "BufferGeometry \<Rightarrow> real \<Rightarrow> BufferGeometry" where
  "rotateX g angle = map (applyMatrix4 (makeRotationX angle)) g"

definition rotateY :: "BufferGeometry \<Rightarrow> real \<Rightarrow> BufferGeometry" where
  "rotateY g angle = map (applyMatrix4 (makeRotationY angle)) g"

text \<open>Reading a coordinate of point \<open>index\<close>: outside the array, and at an index that
  is not a number of the array, the read gives \<open>undefined\<close>. The program passes the
  result of \<open>Math.floor\<close>, which is a whole number or not finite.\<close>

definition inRange :: "BufferGeometry \<Rightarrow> jsnum \<Rightarrow> bool" where
  "inRange g index =
     (case index of
        Num r \<Rightarrow> of_int \<lfloor>r\<rfloor> = r \<and> 0 \<le> r \<and> r < real (length g)
      | _ \<Rightarrow> False)"

definition slot :: "jsnum \<Rightarrow> nat" where
  "slot index = (case index of Num r \<Rightarrow> nat \<lfloor>r\<rfloor> | _ \<Rightarrow> 0)"

definition getX :: "BufferGeometry \<Rightarrow> jsnum \<Rightarrow> jsnum option" where
  "getX g index = (if inRange g index then Some (vx (g ! slot index)) else None)"

definition getY :: "BufferGeometry \<Rightarrow> jsnum \<Rightarrow> jsnum option" where
  "getY g index = (if inRange g index then Some (vy (g ! slot index)) else None)"

definition getZ :: "BufferGeometry \<Rightarrow> jsnum \<Rightarrow> jsnum option" where
  "getZ g index = (if inRange g index then Some (vz (g ! slot index)) else None)"

section \<open>The program\<close>

definition degToRad :: "real \<Rightarrow> real" where
  "degToRad number = number * (pi / 180)"

definition createOrbit :: "real \<Rightarrow> real \<Rightarrow> real \<Rightarrow> real \<Rightarrow> real \<Rightarrow> BufferGeometry" where
  "createOrbit a e inclination lAN aP =
     (let b = js_mul (Num a) (js_sqrt (Num (1 - e * e)));
          a1 = js_mul (Num a) (Num 100);
          b1 = js_mul b (Num 100);
          curve = \<lparr>aX = 0, aY = 0, xRadius = a1, yRadius = b1,
                   aStartAngle = 0, aEndAngle = 2 * pi,
                   aClockwise = False, aRotation = degToRad aP\<rparr>;
          orbitPoints = getPoints curve 50000;
          orbitGeom = setFromPoints orbitPoints;
          orbitGeom1 = rotateX orbitGeom (degToRad inclination - pi / 2);
          orbitGeom2 = rotateY orbitGeom1 (degToRad lAN)
      in orbitGeom2)"

text \<open>
  A \<open>Mesh\<close> is modelled by the two fields the program touches: its position and its
  Euler rotation (three angles). A new mesh sits at the origin with no rotation. The
  geometry, the texture and the scene are rendering state and are left out.
\<close>

record mesh =
  position :: "jsnum option Vector3"
  rotation :: "jsnum Vector3"

definition newMesh :: mesh where
  "newMesh = \<lparr>position = Vector3 (Some (Num 0)) (Some (Num 0)) (Some (Num 0)),
              rotation = Vector3 (Num 0) (Num 0) (Num 0)\<rparr>"

definition addRotationX :: "mesh \<Rightarrow> jsnum \<Rightarrow> mesh" where
  "addRotationX body d =
     body\<lparr>rotation := Vector3 (js_add (vx (rotation body)) d)
                                (vy (rotation body)) (vz (rotation body))\<rparr>"

definition addRotationY :: "mesh \<Rightarrow> jsnum \<Rightarrow> mesh" where
  "addRotationY body d =
     body\<lparr>rotation := Vector3 (vx (rotation body))
                                (js_add (vy (rotation body)) d) (vz (rotation body))\<rparr>"

definition setTilt :: "mesh \<Rightarrow> real \<Rightarrow> mesh" where
  "setTilt body tilt = addRotationX body (Num (degToRad tilt))"

record orbitParameters =
  op_a :: real
  op_e :: real
  op_i :: real
  op_lAN :: real
  op_aP :: real

record ringRadii =
  innerRadius :: real
  outerRadius :: real

record system =
  planet :: mesh
  orbit :: BufferGeometry
  ring :: "mesh option"

definition createRing :: "string \<Rightarrow> ringRadii \<Rightarrow> mesh" where
  "createRing bodyName radii = newMesh"

definition createPlanet ::
  "string \<Rightarrow> real \<Rightarrow> orbitParameters \<Rightarrow> real \<Rightarrow> ringRadii option \<Rightarrow> system" where
  "createPlanet name radius params axialTilt radii =
     (let planet0 = setTilt newMesh axialTilt;
          orbit0 = createOrbit (op_a params) (op_e params) (op_i params)
                               (op_lAN params) (op_aP params)
      in case radii of
           Some rr \<Rightarrow>
             (let ring0 = createRing name rr;
                  ring1 = addRotationX ring0 (Num (0.5 * pi + axialTilt * (pi / 180)))
              in \<lparr>planet = planet0, orbit = orbit0, ring = Some ring1\<rparr>)
         | None \<Rightarrow> \<lparr>planet = planet0, orbit = orbit0, ring = None\<rparr>)"

text \<open>
  \<open>updateSystemPosition\<close>. The reading of \<open>performance.now()\<close> is the argument
  \<open>now\<close>. Three of the function's local values are definitions of their own:
  \<open>timeConversionFactor\<close>, \<open>pointIndex\<close> and, as \<open>spinStep\<close>, the amount
  \<open>rotationPeriod * (Math.PI / 180)\<close> that is added to \<open>rotation.y\<close> (with the
  reassigned \<open>rotationPeriod\<close>).
\<close>

definition timeConversionFactor :: "real \<Rightarrow> jsnum" where
  "timeConversionFactor orbitalPeriod =
     js_mul (js_div (Num (2 * pi)) (Num (orbitalPeriod * 86400))) (Num 300)"

definition pointIndex :: "BufferGeometry \<Rightarrow> real \<Rightarrow> real \<Rightarrow> jsnum" where
  "pointIndex pos orbitalPeriod now =
     (let time = js_mul (Num now) (timeConversionFactor orbitalPeriod)
      in js_floor (js_mul (js_rem time (Num 1)) (Num (real_of_int (int (length pos) - 1)))))"

definition spinStep :: "real \<Rightarrow> jsnum" where
  "spinStep rotationPeriod =
     js_mul (js_mul (js_div (Num (2 * pi)) (Num rotationPeriod)) (Num 0.1)) (Num (pi / 180))"

definition updateSystemPosition :: "system \<Rightarrow> real \<Rightarrow> real \<Rightarrow> real \<Rightarrow> system" where
  "updateSystemPosition sys orbitalPeriod rotationPeriod now =
     (let pos = orbit sys;
          idx = pointIndex pos orbitalPeriod now;
          point = Vector3 (getX pos idx) (getY pos idx) (getZ pos idx);
          planet1 = (planet sys)\<lparr>position :=
                       set_xyz (position (planet sys)) (vx point) (vy point) (vz point)\<rparr>;
          planet2 = addRotationY planet1 (spinStep rotationPeriod)
      in case ring sys of
           Some r \<Rightarrow>
             sys\<lparr>planet := addRotationY planet2 (spinStep rotationPeriod),
                 ring := Some (r\<lparr>position :=
                           set_xyz (position r) (vx point) (vy point) (vz point)\<rparr>)\<rparr>
         | None \<Rightarrow> sys\<lparr>planet := planet2\<rparr>)"

text \<open>What successive frames of \<open>animate\<close> do to one body: one call of
  \<open>updateSystemPosition\<close> per frame, with the body's two periods and the clock reading
  of that frame, in the order of the list.\<close>

fun animateBody :: "system \<Rightarrow> real \<Rightarrow> real \<Rightarrow> real list \<Rightarrow> system" where
  "animateBody sys orbitalPeriod rotationPeriod [] = sys"
| "animateBody sys orbitalPeriod rotationPeriod (now # rest) =
     animateBody (updateSystemPosition sys orbitalPeriod rotationPeriod now)
                 orbitalPeriod rotationPeriod rest"

section \<open>The orbit path as the specification describes it\<close>

text \<open>
  The steps of the specification's path builder, written over the reals with the usual
  rotation formulas: the semi-minor axis, the scaling by 100, the ellipse rotated in its
  plane and traversed counter-clockwise, the rotation about the X axis and the rotation
  about the Y axis.
\<close>

definition spec_semiMinor :: "real \<Rightarrow> real \<Rightarrow> real" where
  "spec_semiMinor a e = a * sqrt (1 - e * e)"

definition spec_ellipse :: "real \<Rightarrow> real \<Rightarrow> real \<Rightarrow> real \<Rightarrow> real \<times> real \<times> real" where
  "spec_ellipse ra rb phi theta =
     (ra * cos theta * cos phi - rb * sin theta * sin phi,
      ra * cos theta * sin phi + rb * sin theta * cos phi,
      0)"

definition spec_rotateAboutX :: "real \<Rightarrow> real \<times> real \<times> real \<Rightarrow> real \<times> real \<times> real" where
  "spec_rotateAboutX alpha p =
     (case p of (px, py, pz) \<Rightarrow>
        (px, py * cos alpha - pz * sin alpha, py * sin alpha + pz * cos alpha))"

definition spec_rotateAboutY :: "real \<Rightarrow> real \<times> real \<times> real \<Rightarrow> real \<times> real \<times> real" where
  "spec_rotateAboutY beta p =
     (case p of (px, py, pz) \<Rightarrow>
        (px * cos beta + pz * sin beta, py, pz * cos beta - px * sin beta))"

definition spec_point ::
  "real \<Rightarrow> real \<Rightarrow> real \<Rightarrow> real \<Rightarrow> real \<Rightarrow> real \<Rightarrow> real \<times> real \<times> real" where
  "spec_point a e inclination lAN aP theta =
     spec_rotateAboutY (lAN * pi / 180)
       (spec_rotateAboutX (inclination * pi / 180 - pi / 2)
          (spec_ellipse (100 * a) (100 * spec_semiMinor a e) (aP * pi / 180) theta))"

definition spec_buildOrbit ::
  "real \<Rightarrow> real \<Rightarrow> real \<Rightarrow> real \<Rightarrow> real \<Rightarrow> (real \<times> real \<times> real) list" where
  "spec_buildOrbit a e inclination lAN aP =
     map (\<lambda>k. spec_point a e inclination lAN aP (2 * pi * real k / 50000)) [0..<50001]"

definition finitePoint :: "real \<times> real \<times> real \<Rightarrow> jsnum Vector3" where
  "finitePoint p = (case p of (px, py, pz) \<Rightarrow> Vector3 (Num px) (Num py) (Num pz))"

text \<open>The ring is present and sits where the planet sits.\<close>

definition ringFollows :: "system \<Rightarrow> bool" where
  "ringFollows sys = (map_option position (ring sys) = Some (position (planet sys)))"

section \<open>Arithmetic of the model\<close>

lemma js_add_NaN [simp]: "js_add u NaN = NaN" "js_add NaN u = NaN"
  by (cases u; simp)+

lemma js_mul_NaN [simp]: "js_mul u NaN = NaN" "js_mul NaN u = NaN"
  by (cases u; simp)+

lemma js_rem_one_nonneg: "0 \<le> r \<Longrightarrow> js_rem (Num r) (Num 1) = Num (frac r)"
  by (simp add: truncQuot_def frac_def)

lemma scaled_frac_bounds:
  fixes r :: real and n :: nat
  assumes "1 \<le> n"
  shows "0 \<le> \<lfloor>frac r * (real n - 1)\<rfloor>" and "\<lfloor>frac r * (real n - 1)\<rfloor> < int n"
    and "2 \<le> n \<Longrightarrow> \<lfloor>frac r * (real n - 1)\<rfloor> < int n - 1"
proof -
  have nn: "0 \<le> real n - 1" using assms by simp
  have f0: "0 \<le> frac r" and f1: "frac r < 1" by (simp_all add: frac_lt_1)
  have lo: "0 \<le> frac r * (real n - 1)" using f0 nn by simp
  then show "0 \<le> \<lfloor>frac r * (real n - 1)\<rfloor>" by simp
  have "frac r * (real n - 1) \<le> 1 * (real n - 1)"
    using f1 nn by (intro mult_right_mono) simp_all
  then have "frac r * (real n - 1) < real n" by simp
  then have "frac r * (real n - 1) < of_int (int n)" by simp
  then show "\<lfloor>frac r * (real n - 1)\<rfloor> < int n" by (simp only: floor_less_iff)
  assume "2 \<le> n"
  then have pos: "0 < real n - 1" by simp
  have "frac r * (real n - 1) < 1 * (real n - 1)"
    using f1 pos by (intro mult_strict_right_mono) simp_all
  then have "frac r * (real n - 1) < of_int (int n - 1)" by simp
  then show "\<lfloor>frac r * (real n - 1)\<rfloor> < int n - 1" by (simp only: floor_less_iff)
qed

section \<open>Bounds on pi\<close>

text \<open>The cosine is positive at 1.565 and negative at 1.58 (Maclaurin's formula with
  ten terms), so \<open>pi\<close> lies between 3.13 and 3.16.\<close>

lemma sum_lessThan_ten:
  fixes f :: "nat \<Rightarrow> real"
  shows "(\<Sum>m<10. f m) = f 0 + f 1 + f 2 + f 3 + f 4 + f 5 + f 6 + f 7 + f 8 + f 9"
  by (simp add: eval_nat_numeral lessThan_Suc)

lemma cos_coeff_values:
  "cos_coeff 0 = 1" "cos_coeff 1 = 0" "cos_coeff 2 = - 1 / 2" "cos_coeff 3 = 0"
  "cos_coeff 4 = 1 / 24" "cos_coeff 5 = 0" "cos_coeff 6 = - 1 / 720" "cos_coeff 7 = 0"
  "cos_coeff 8 = 1 / 40320" "cos_coeff 9 = 0"
  by (simp_all add: cos_coeff_def fact_numeral)

lemma cos_poly_sum:
  "(\<Sum>m<10. cos_coeff m * x ^ m) = 1 - x^2 / 2 + x^4 / 24 - x^6 / 720 + x^8 / 40320"
  unfolding sum_lessThan_ten cos_coeff_values by simp

lemma cos_taylor:
  fixes x :: real
  assumes "0 < x"
  shows "\<bar>cos x - (1 - x^2 / 2 + x^4 / 24 - x^6 / 720 + x^8 / 40320)\<bar> \<le> x ^ 10 / 3628800"
proof -
  obtain t where t: "cos x = (\<Sum>m<10. cos_coeff m * x ^ m)
      + (cos (t + 1/2 * real (10::nat) * pi) / fact 10) * x ^ 10"
    using Maclaurin_cos_expansion2 [of x 10] assms by auto
  have f10: "fact 10 = (3628800 :: real)" by (simp add: fact_numeral)
  have "\<bar>cos (t + 1/2 * real (10::nat) * pi)\<bar> \<le> 1" by (rule abs_cos_le_one)
  then have "\<bar>cos (t + 1/2 * real (10::nat) * pi) / fact 10 * x ^ 10\<bar> \<le> 1 / 3628800 * x ^ 10"
    unfolding f10 abs_mult abs_divide using assms
    by (intro mult_mono divide_right_mono) simp_all
  then show ?thesis
    unfolding t cos_poly_sum by simp
qed

lemma cos_lower_arg: "0 < cos (313 / 200 :: real)"
proof -
  have "\<bar>cos (313/200) - (1 - (313/200)^2 / 2 + (313/200)^4 / 24 - (313/200)^6 / 720
        + (313/200)^8 / 40320)\<bar> \<le> (313/200 :: real) ^ 10 / 3628800"
    by (rule cos_taylor) simp
  moreover have "0 < (1 - (313/200)^2 / 2 + (313/200)^4 / 24 - (313/200)^6 / 720
        + (313/200)^8 / 40320) - (313/200 :: real) ^ 10 / 3628800"
    by (simp add: power_divide)
  ultimately show ?thesis by linarith
qed

lemma cos_upper_arg: "cos (79 / 50 :: real) < 0"
proof -
  have "\<bar>cos (79/50) - (1 - (79/50)^2 / 2 + (79/50)^4 / 24 - (79/50)^6 / 720
        + (79/50)^8 / 40320)\<bar> \<le> (79/50 :: real) ^ 10 / 3628800"
    by (rule cos_taylor) simp
  moreover have "(1 - (79/50)^2 / 2 + (79/50)^4 / 24 - (79/50)^6 / 720
        + (79/50)^8 / 40320) + (79/50 :: real) ^ 10 / 3628800 < 0"
    by (simp add: power_divide)
  ultimately show ?thesis by linarith
qed

lemma pi_lower: "313 / 100 < pi"
proof (rule ccontr)
  assume "\<not> 313 / 100 < pi"
  then have le: "pi / 2 \<le> 313 / 200" by simp
  have "313 / 200 \<le> pi" using pi_ge_two by simp
  then have "cos (313 / 200) \<le> cos (pi / 2)"
    using le by (intro cos_monotone_0_pi_le) simp_all
  then show False using cos_lower_arg by simp
qed

lemma pi_upper: "pi < 79 / 25"
proof (rule ccontr)
  assume "\<not> pi < 79 / 25"
  then have le: "79 / 50 \<le> pi / 2" by simp
  have "cos (pi / 2) \<le> cos (79 / 50)"
    using le by (intro cos_monotone_0_pi_le) simp_all
  then show False using cos_upper_arg by simp
qed

lemma four_pi_squared: "39 + 9 / 50 < 4 * pi * pi" "4 * pi * pi < 40"
proof -
  have "313 / 100 * (313 / 100) < pi * pi"
    using pi_lower by (intro mult_strict_mono) simp_all
  then show "39 + 9 / 50 < 4 * pi * pi" by simp
  have "pi * pi < 79 / 25 * (79 / 25)"
    using pi_upper by (intro mult_strict_mono) simp_all
  then show "4 * pi * pi < 40" by simp
qed

section \<open>The curve and the two rotations\<close>

lemma EPSILON_small: "EPSILON < 2 * pi"
proof -
  have "EPSILON \<le> 1" by (simp add: EPSILON_def)
  moreover have "2 \<le> pi" by (rule pi_ge_two)
  ultimately show ?thesis by linarith
qed

text \<open>From 0 to \<open>2 PI\<close>, not clockwise, neither loop runs and the sweep is the full
  turn.\<close>

lemma deltaAngle_full:
  "aStartAngle c = 0 \<Longrightarrow> aEndAngle c = 2 * pi \<Longrightarrow> \<not> aClockwise c \<Longrightarrow> deltaAngle c = 2 * pi"
  using EPSILON_small by (simp add: deltaAngle_def Let_def)

lemma getPoint_finite:
  assumes "aStartAngle c = 0" "aEndAngle c = 2 * pi" "\<not> aClockwise c"
    and "aX c = 0" "aY c = 0" "xRadius c = Num ra" "yRadius c = Num rb"
  shows "getPoint c t =
    (Num (ra * cos (t * (2 * pi)) * cos (aRotation c) - rb * sin (t * (2 * pi)) * sin (aRotation c)),
     Num (ra * cos (t * (2 * pi)) * sin (aRotation c) + rb * sin (t * (2 * pi)) * cos (aRotation c)))"
  using assms by (simp add: getPoint_def deltaAngle_full Let_def js_sub_def)

lemma getPoint_NaN:
  assumes "xRadius c = Num ra" "yRadius c = NaN"
  shows "snd (getPoint c t) = NaN"
  using assms by (simp add: getPoint_def Let_def js_sub_def)

lemma applyMatrix4_rotX:
  "applyMatrix4 (makeRotationX al) (Vector3 (Num px) (Num py) (Num pz)) =
     Vector3 (Num px) (Num (py * cos al - pz * sin al)) (Num (py * sin al + pz * cos al))"
  by (simp add: applyMatrix4_def makeRotationX_def row_def Let_def algebra_simps)

lemma applyMatrix4_rotY:
  "applyMatrix4 (makeRotationY be) (Vector3 (Num px) (Num py) (Num pz)) =
     Vector3 (Num (px * cos be + pz * sin be)) (Num py) (Num (pz * cos be - px * sin be))"
  by (simp add: applyMatrix4_def makeRotationY_def row_def Let_def algebra_simps)

text \<open>A \<open>NaN\<close> coordinate spreads to the whole point: the matrix product multiplies it
  by the zero entries too.\<close>

lemma applyMatrix4_rotX_NaN:
  "applyMatrix4 (makeRotationX al) (Vector3 u NaN w) = Vector3 NaN NaN NaN"
  by (simp add: applyMatrix4_def makeRotationX_def row_def Let_def)

lemma applyMatrix4_rotY_NaN:
  "applyMatrix4 (makeRotationY be) (Vector3 NaN NaN NaN) = Vector3 NaN NaN NaN"
  by (simp add: applyMatrix4_def makeRotationY_def row_def Let_def)

section \<open>The orbit path\<close>

lemma length_createOrbit: "length (createOrbit a e inclination lAN aP) = 50001"
  by (simp add: createOrbit_def Let_def getPoints_def setFromPoints_def rotateX_def rotateY_def
      del: upt_Suc)

lemma createOrbit_nonempty: "createOrbit a e inclination lAN aP \<noteq> []"
  using length_createOrbit [of a e inclination lAN aP] by auto

lemma createOrbit_spec:
  assumes "e * e \<le> 1"
  shows "createOrbit a e inclination lAN aP =
         map finitePoint (spec_buildOrbit a e inclination lAN aP)"
proof -
  have sq: "js_sqrt (Num (1 - e * e)) = Num (sqrt (1 - e * e))"
    using assms by simp
  have "createOrbit a e inclination lAN aP =
        map (\<lambda>k. finitePoint (spec_point a e inclination lAN aP (2 * pi * real k / 50000)))
            [0..<50001]"
    unfolding createOrbit_def Let_def getPoints_def setFromPoints_def rotateX_def rotateY_def
      sq map_map comp_def
    by (simp add: getPoint_finite applyMatrix4_rotX applyMatrix4_rotY spec_point_def
        spec_ellipse_def spec_rotateAboutX_def spec_rotateAboutY_def finitePoint_def
        spec_semiMinor_def degToRad_def mult_ac del: upt_Suc)
  then show ?thesis
    by (simp add: spec_buildOrbit_def del: upt_Suc)
qed

lemma valid_eccentricity: "0 \<le> e \<Longrightarrow> e < 1 \<Longrightarrow> e * e \<le> (1::real)"
  using mult_mono [of e 1 e 1] by simp

text \<open>
  Claim C1. For valid elements (\<open>0 \<le> e < 1\<close>, \<open>a > 0\<close>) the path that \<open>createOrbit\<close>
  returns is the composition of the specification's steps: the semi-minor axis
  \<open>a * sqrt (1 - e * e)\<close>, both axes scaled by 100, the ellipse rotated in its plane by
  \<open>aP\<close> in radians and traversed counter-clockwise from 0 to \<open>2 PI\<close>, then the rotation
  about X by the inclination in radians minus \<open>PI / 2\<close>, then the rotation about Y by
  \<open>lAN\<close> in radians, and nothing after that. The points are those of
  \<open>spec_buildOrbit\<close>, all finite.
\<close>

theorem createOrbit_composition:
  assumes "0 \<le> e" "e < 1" "0 < a"
  shows "createOrbit a e inclination lAN aP =
         map finitePoint (spec_buildOrbit a e inclination lAN aP)"
  using assms by (intro createOrbit_spec valid_eccentricity)

theorem createOrbit_composition_witness:
  "createOrbit 1 0 0 0 0 = map finitePoint (spec_buildOrbit 1 0 0 0 0)"
  using createOrbit_composition [of 0 1 0 0 0] by simp

lemma spec_point_closed:
  "spec_point a e inclination lAN aP (2 * pi) = spec_point a e inclination lAN aP 0"
  by (simp add: spec_point_def spec_ellipse_def)

text \<open>
  Claim C4, as amended. \<open>createOrbit\<close> has no sample-count parameter: it asks the curve
  for 50000 divisions and, for valid elements (\<open>0 \<le> e < 1\<close>, \<open>a > 0\<close>), returns exactly
  50001 points, one more than the number of divisions. The first point is the path's
  point at angle 0, and the last point (index 50000) is equal to the first: the curve is
  closed.
\<close>

theorem createOrbit_closed:
  assumes "0 \<le> e" "e < 1" "0 < a"
  shows "length (createOrbit a e inclination lAN aP) = 50001 \<and>
         createOrbit a e inclination lAN aP ! 0 =
           finitePoint (spec_point a e inclination lAN aP 0) \<and>
         createOrbit a e inclination lAN aP ! 50000 = createOrbit a e inclination lAN aP ! 0"
proof -
  have eq: "createOrbit a e inclination lAN aP =
      map finitePoint (spec_buildOrbit a e inclination lAN aP)"
    using assms by (intro createOrbit_spec valid_eccentricity)
  have first: "spec_buildOrbit a e inclination lAN aP ! 0 = spec_point a e inclination lAN aP 0"
    by (simp add: spec_buildOrbit_def del: upt_Suc)
  have last: "spec_buildOrbit a e inclination lAN aP ! 50000 =
      spec_point a e inclination lAN aP (2 * pi)"
    by (simp add: spec_buildOrbit_def del: upt_Suc)
  have len: "length (spec_buildOrbit a e inclination lAN aP) = 50001"
    by (simp add: spec_buildOrbit_def del: upt_Suc)
  show ?thesis
    using first last len by (simp add: eq spec_point_closed)
qed

theorem createOrbit_closed_witness:
  "length (createOrbit 1 0 0 0 0) = 50001 \<and>
   createOrbit 1 0 0 0 0 ! 0 = Vector3 (Num 100) (Num 0) (Num 0) \<and>
   createOrbit 1 0 0 0 0 ! 50000 = Vector3 (Num 100) (Num 0) (Num 0)"
  using createOrbit_closed [of 0 1 0 0 0]
  by (simp add: finitePoint_def spec_point_def spec_ellipse_def spec_rotateAboutX_def
      spec_rotateAboutY_def spec_semiMinor_def)

text \<open>The number of points is not the number that line 66 of the source requests from the
  curve: \<open>getPoints(50000)\<close> gives 50001 points.\<close>

theorem createOrbit_count_counterexample:
  "length (createOrbit 1 0 0 0 0) = 50001 \<and> length (createOrbit 1 0 0 0 0) \<noteq> 50000"
  by (simp add: length_createOrbit)

lemma createOrbit_NaN:
  assumes "1 < e * e" "k < 50001"
  shows "createOrbit a e inclination lAN aP ! k = Vector3 NaN NaN NaN"
  using assms
  by (simp add: createOrbit_def Let_def getPoints_def setFromPoints_def rotateX_def rotateY_def
      split_beta getPoint_NaN applyMatrix4_rotX_NaN applyMatrix4_rotY_NaN del: upt_Suc)

text \<open>
  Claim C9, as amended. \<open>createOrbit\<close> does not validate the eccentricity. For every
  \<open>e \<ge> 1\<close> it returns a path of 50001 points; when \<open>e > 1\<close> the semi-minor axis is
  \<open>NaN\<close> and every coordinate of every point is \<open>NaN\<close>; when \<open>e = 1\<close> the semi-minor
  axis is 0 and the path is the finite, flattened one that the steps of the specification
  give.
\<close>

theorem createOrbit_not_validated:
  assumes "1 \<le> e"
  shows "length (createOrbit a e inclination lAN aP) = 50001 \<and>
         (if 1 < e
          then list_all (\<lambda>p. p = Vector3 NaN NaN NaN) (createOrbit a e inclination lAN aP)
          else createOrbit a e inclination lAN aP =
               map finitePoint (spec_buildOrbit a e inclination lAN aP))"
proof (cases "1 < e")
  case True
  then have "1 * 1 < e * e" by (intro mult_strict_mono) simp_all
  then have "\<forall>k<50001. createOrbit a e inclination lAN aP ! k = Vector3 NaN NaN NaN"
    by (simp add: createOrbit_NaN)
  then show ?thesis
    using True by (simp add: length_createOrbit list_all_length)
next
  case False
  then have "e * e \<le> 1" using assms by simp
  then have "createOrbit a e inclination lAN aP =
      map finitePoint (spec_buildOrbit a e inclination lAN aP)"
    by (rule createOrbit_spec)
  then show ?thesis
    using False length_createOrbit [of a e inclination lAN aP] by simp
qed

theorem createOrbit_not_validated_witness:
  "length (createOrbit 1 (3 / 2) 0 0 0) = 50001 \<and>
   list_all (\<lambda>p. p = Vector3 NaN NaN NaN) (createOrbit 1 (3 / 2) 0 0 0)"
  using createOrbit_not_validated [of "3 / 2" 1 0 0 0] by simp

text \<open>With \<open>e = 2\<close> the construction is not rejected: a path comes back, and its first
  point is \<open>NaN\<close> in every coordinate.\<close>

theorem createOrbit_rejection_counterexample:
  "length (createOrbit 1 2 0 0 0) = 50001 \<and> createOrbit 1 2 0 0 0 ! 0 = Vector3 NaN NaN NaN"
  by (simp add: length_createOrbit createOrbit_NaN)

section \<open>The position sampler\<close>

lemma timeConversionFactor_finite:
  "orbitalPeriod \<noteq> 0 \<Longrightarrow>
   timeConversionFactor orbitalPeriod = Num (2 * pi / (orbitalPeriod * 86400) * 300)"
  by (simp add: timeConversionFactor_def)

lemma pointIndex_finite:
  assumes "0 < orbitalPeriod" "0 \<le> now"
  shows "pointIndex pos orbitalPeriod now =
         Num (of_int \<lfloor>frac (now * (2 * pi / (orbitalPeriod * 86400) * 300))
                       * (real (length pos) - 1)\<rfloor>)"
proof -
  have nz: "orbitalPeriod \<noteq> 0" using assms by simp
  have "0 \<le> now * (2 * pi / (orbitalPeriod * 86400) * 300)"
    using assms by simp
  then have rem: "js_rem (Num (now * (2 * pi / (orbitalPeriod * 86400) * 300))) (Num 1)
      = Num (frac (now * (2 * pi / (orbitalPeriod * 86400) * 300)))"
    by (rule js_rem_one_nonneg)
  have cnt: "real_of_int (int (length pos) - 1) = real (length pos) - 1" by simp
  show ?thesis
    unfolding pointIndex_def Let_def timeConversionFactor_finite [OF nz] js_mul.simps rem cnt
      js_floor.simps ..
qed

lemma inRange_of_int:
  "0 \<le> k \<Longrightarrow> k < int (length g) \<Longrightarrow> inRange g (Num (of_int k))"
  by (simp add: inRange_def)

lemma slot_of_int: "slot (Num (of_int k)) = nat k"
  by (simp add: slot_def)

lemma pointIndex_inRange:
  assumes "0 < orbitalPeriod" "0 \<le> now" "pos \<noteq> []"
  shows "inRange pos (pointIndex pos orbitalPeriod now)"
proof -
  have "1 \<le> length pos" using assms(3) by (cases pos) simp_all
  then show ?thesis
    unfolding pointIndex_finite [OF assms(1,2)]
    by (intro inRange_of_int scaled_frac_bounds)
qed

lemma getters_inRange:
  assumes "inRange pos idx"
  shows "set_xyz v (getX pos idx) (getY pos idx) (getZ pos idx) =
         Vector3 (Some (vx (pos ! slot idx))) (Some (vy (pos ! slot idx)))
                 (Some (vz (pos ! slot idx)))"
  using assms by (simp add: set_xyz_def getX_def getY_def getZ_def)

lemma planet_position_update:
  "position (planet (updateSystemPosition sys orbitalPeriod rotationPeriod now)) =
     set_xyz (position (planet sys))
       (getX (orbit sys) (pointIndex (orbit sys) orbitalPeriod now))
       (getY (orbit sys) (pointIndex (orbit sys) orbitalPeriod now))
       (getZ (orbit sys) (pointIndex (orbit sys) orbitalPeriod now))"
  by (simp add: updateSystemPosition_def Let_def addRotationY_def split: option.split)

lemma orbit_update:
  "orbit (updateSystemPosition sys orbitalPeriod rotationPeriod now) = orbit sys"
  by (simp add: updateSystemPosition_def Let_def split: option.split)

lemma orbit_createPlanet:
  "orbit (createPlanet name radius params axialTilt radii) =
   createOrbit (op_a params) (op_e params) (op_i params) (op_lAN params) (op_aP params)"
  by (simp add: createPlanet_def Let_def split: option.split)

text \<open>
  Claim C2. With a positive orbital period, a clock reading \<open>now \<ge> 0\<close> and a path that
  is not empty, the position that an update gives the body depends on the path, the
  period and \<open>now\<close> only: two systems with the same path get the same position, whatever
  their earlier positions, spins, rings and rotation periods were, and a second update
  with the same \<open>now\<close> leaves the position where the first put it.
\<close>

theorem position_stateless:
  assumes "0 \<le> now" "0 < orbitalPeriod" "orbit s1 = orbit s2" "orbit s1 \<noteq> []"
  shows "position (planet (updateSystemPosition s1 orbitalPeriod r1 now)) =
         position (planet (updateSystemPosition s2 orbitalPeriod r2 now))
       \<and> position (planet (updateSystemPosition
                      (updateSystemPosition s1 orbitalPeriod r1 now) orbitalPeriod r1 now)) =
         position (planet (updateSystemPosition s1 orbitalPeriod r1 now))"
proof -
  have rng: "inRange (orbit s1) (pointIndex (orbit s1) orbitalPeriod now)"
    using assms by (intro pointIndex_inRange)
  show ?thesis
    using rng assms(3)
    by (simp add: planet_position_update getters_inRange orbit_update)
qed

theorem position_stateless_witness:
  "position (planet (updateSystemPosition
       (createPlanet ''saturn'' 58.232
          \<lparr>op_a = 9.5826, op_e = 0.0565, op_i = 2.485, op_lAN = 113.665, op_aP = 339.392\<rparr>
          26.73 (Some \<lparr>innerRadius = 66.9, outerRadius = 136.775\<rparr>)) 10855.7 0.44 1000)) =
   position (planet (updateSystemPosition
       (createPlanet ''saturn'' 58.232
          \<lparr>op_a = 9.5826, op_e = 0.0565, op_i = 2.485, op_lAN = 113.665, op_aP = 339.392\<rparr>
          26.73 None) 10855.7 (-243) 1000))"
  using position_stateless [of 1000 "10855.7"
      "createPlanet ''saturn'' 58.232
          \<lparr>op_a = 9.5826, op_e = 0.0565, op_i = 2.485, op_lAN = 113.665, op_aP = 339.392\<rparr>
          26.73 (Some \<lparr>innerRadius = 66.9, outerRadius = 136.775\<rparr>)"
      "createPlanet ''saturn'' 58.232
          \<lparr>op_a = 9.5826, op_e = 0.0565, op_i = 2.485, op_lAN = 113.665, op_aP = 339.392\<rparr>
          26.73 None" "0.44" "-243"]
  by (simp add: orbit_createPlanet createOrbit_nonempty)

text \<open>
  Claim C3. For \<open>now \<ge> 0\<close> and a positive orbital period the index is
  \<open>floor ((phase mod 1) * (N - 1))\<close> with
  \<open>phase = now * (2 PI / (orbitalPeriod * 86400)) * 300\<close>; it lies in \<open>[0, N - 1)\<close> and
  the three reads return the stored coordinates of that point. \<open>N\<close> is the number of
  points of the path, at least 2 (every path that \<open>createOrbit\<close> builds has 50001).
\<close>

theorem pointIndex_in_bounds:
  assumes "0 \<le> now" "0 < orbitalPeriod" "2 \<le> length pos"
  shows "\<exists>k. k = \<lfloor>frac (now * (2 * pi / (orbitalPeriod * 86400)) * 300)
                   * (real (length pos) - 1)\<rfloor>
            \<and> pointIndex pos orbitalPeriod now = Num (of_int k)
            \<and> 0 \<le> k \<and> k < int (length pos) - 1
            \<and> getX pos (pointIndex pos orbitalPeriod now) = Some (vx (pos ! nat k))
            \<and> getY pos (pointIndex pos orbitalPeriod now) = Some (vy (pos ! nat k))
            \<and> getZ pos (pointIndex pos orbitalPeriod now) = Some (vz (pos ! nat k))"
proof -
  define k where
    "k = \<lfloor>frac (now * (2 * pi / (orbitalPeriod * 86400) * 300)) * (real (length pos) - 1)\<rfloor>"
  have n1: "1 \<le> length pos" using assms(3) by simp
  have idx: "pointIndex pos orbitalPeriod now = Num (of_int k)"
    unfolding k_def by (rule pointIndex_finite [OF assms(2,1)])
  have lo: "0 \<le> k" unfolding k_def by (rule scaled_frac_bounds(1) [OF n1])
  have hi: "k < int (length pos) - 1"
    unfolding k_def by (rule scaled_frac_bounds(3) [OF n1 assms(3)])
  have rng: "inRange pos (Num (of_int k))" using lo hi by (intro inRange_of_int) simp_all
  have assoc: "now * (2 * pi / (orbitalPeriod * 86400)) * 300 =
               now * (2 * pi / (orbitalPeriod * 86400) * 300)"
    by simp
  have rd: "getX pos (Num (of_int k)) = Some (vx (pos ! nat k))"
      "getY pos (Num (of_int k)) = Some (vy (pos ! nat k))"
      "getZ pos (Num (of_int k)) = Some (vz (pos ! nat k))"
    using rng by (simp_all add: getX_def getY_def getZ_def slot_of_int)
  show ?thesis
    unfolding assoc idx k_def [symmetric] using lo hi rd by blast
qed

theorem pointIndex_in_bounds_witness:
  "pointIndex (createOrbit 1 0 0 0 0) 1 (72 / pi) = Num 25000
   \<and> getX (createOrbit 1 0 0 0 0) (pointIndex (createOrbit 1 0 0 0 0) 1 (72 / pi))
       = Some (vx (createOrbit 1 0 0 0 0 ! 25000))"
  using pointIndex_in_bounds [of "72 / pi" 1 "createOrbit 1 0 0 0 0"]
  by (auto simp add: length_createOrbit)

lemma period_shift:
  assumes "0 < orbitalPeriod"
  shows "(now + orbitalPeriod * 86400 / (300 * (2 * pi)))
           * (2 * pi / (orbitalPeriod * 86400) * 300)
         = now * (2 * pi / (orbitalPeriod * 86400) * 300) + 1"
  using assms by (simp add: field_simps)

text \<open>
  Claim C5, as amended. In exact arithmetic, for a positive orbital period and
  \<open>now \<ge> 0\<close>, the updates at \<open>now\<close> and at
  \<open>now + orbitalPeriod * 86400 / (300 * 2 PI)\<close> have the same point index: the full
  cycle is the period divided by \<open>2 PI\<close>, not multiplied by it. The equality is one of
  the real numbers that the finite JavaScript numbers denote. The rounding of doubles is
  not part of it: at a clock reading that falls on the boundary between two samples, the
  rounded phase can land in the neighbouring sample.
\<close>

theorem pointIndex_periodic:
  assumes "0 < orbitalPeriod" "0 \<le> now"
  shows "pointIndex pos orbitalPeriod (now + orbitalPeriod * 86400 / (300 * (2 * pi)))
         = pointIndex pos orbitalPeriod now"
proof -
  have later: "0 \<le> now + orbitalPeriod * 86400 / (300 * (2 * pi))"
    using assms by simp
  show ?thesis
    unfolding pointIndex_finite [OF assms] pointIndex_finite [OF assms(1) later]
      period_shift [OF assms(1)] frac_1_eq by (rule refl)
qed

text \<open>A clock reading in the middle of a sample: the phase is 0.50001, half a sample
  past the start of sample 25000, and one full cycle later the index is 25000 again.\<close>

theorem pointIndex_periodic_witness:
  "pointIndex (createOrbit 1 0 0 0 0) 1 (7200144 / (100000 * pi) + 1 * 86400 / (300 * (2 * pi)))
     = Num 25000
   \<and> pointIndex (createOrbit 1 0 0 0 0) 1 (7200144 / (100000 * pi)) = Num 25000"
  using pointIndex_periodic [of 1 "7200144 / (100000 * pi)" "createOrbit 1 0 0 0 0"]
    pointIndex_finite [of 1 "7200144 / (100000 * pi)" "createOrbit 1 0 0 0 0"]
  by (simp add: length_createOrbit)

text \<open>After \<open>orbitalPeriod * 86400 / 300 * 2 PI\<close> milliseconds the phase has advanced by
  \<open>4 PI\<^sup>2\<close>, which is not a whole number of turns: from time 0, where the index is 0,
  the index moves to a point past 9000.\<close>

theorem pointIndex_period_counterexample:
  "pointIndex (createOrbit 1 0 0 0 0) 1 (0 + 1 * 86400 / 300 * (2 * pi)) \<noteq>
   pointIndex (createOrbit 1 0 0 0 0) 1 0"
proof -
  have start: "pointIndex (createOrbit 1 0 0 0 0) 1 0 = Num 0"
    using pointIndex_finite [of 1 0 "createOrbit 1 0 0 0 0"] by simp
  have phase: "(0 + 1 * 86400 / 300 * (2 * pi)) * (2 * pi / (1 * 86400) * 300) = 4 * pi * pi"
    by simp
  have fl: "\<lfloor>4 * pi * pi\<rfloor> = 39"
    using four_pi_squared by (intro floor_unique) simp_all
  have fr: "frac (4 * pi * pi) = 4 * pi * pi - 39"
    by (simp add: frac_def fl)
  have "1 \<le> (4 * pi * pi - 39) * (real (length (createOrbit 1 0 0 0 0)) - 1)"
    using four_pi_squared(1) by (simp add: length_createOrbit)
  then have "1 \<le> \<lfloor>frac (4 * pi * pi) * (real (length (createOrbit 1 0 0 0 0)) - 1)\<rfloor>"
    unfolding fr by linarith
  then have "real_of_int \<lfloor>frac (4 * pi * pi) * (real (length (createOrbit 1 0 0 0 0)) - 1)\<rfloor>
      \<noteq> 0"
    by linarith
  moreover have "pointIndex (createOrbit 1 0 0 0 0) 1 (0 + 1 * 86400 / 300 * (2 * pi)) =
      Num (of_int \<lfloor>frac (4 * pi * pi) * (real (length (createOrbit 1 0 0 0 0)) - 1)\<rfloor>)"
    using pointIndex_finite [of 1 "0 + 1 * 86400 / 300 * (2 * pi)" "createOrbit 1 0 0 0 0"]
    unfolding phase by simp
  ultimately show ?thesis
    unfolding start by simp
qed

section \<open>The spin\<close>

lemma spin_update:
  "vy (rotation (planet (updateSystemPosition sys orbitalPeriod rotationPeriod now))) =
     (case ring sys of
        None \<Rightarrow> js_add (vy (rotation (planet sys))) (spinStep rotationPeriod)
      | Some r \<Rightarrow> js_add (js_add (vy (rotation (planet sys))) (spinStep rotationPeriod))
                         (spinStep rotationPeriod))"
  by (simp add: updateSystemPosition_def Let_def addRotationY_def split: option.split)

lemma spinStep_finite:
  "rotationPeriod \<noteq> 0 \<Longrightarrow>
   spinStep rotationPeriod = Num (2 * pi / rotationPeriod * 0.1 * (pi / 180))"
  by (simp add: spinStep_def)

lemma spinStep_sign:
  assumes "rotationPeriod \<noteq> 0"
  shows "if 0 < rotationPeriod then 0 < 2 * pi / rotationPeriod * 0.1 * (pi / 180)
         else 2 * pi / rotationPeriod * 0.1 * (pi / 180) < 0"
proof -
  have c: "0 < 2 * pi * 0.1 * (pi / 180)" by simp
  have eq: "2 * pi / rotationPeriod * 0.1 * (pi / 180) =
      (2 * pi * 0.1 * (pi / 180)) / rotationPeriod"
    by simp
  show ?thesis
  proof (cases "0 < rotationPeriod")
    case True
    then show ?thesis unfolding eq using c by (simp only: if_True divide_pos_pos)
  next
    case False
    then have "rotationPeriod < 0" using assms by simp
    then have "(2 * pi * 0.1 * (pi / 180)) / rotationPeriod < 0"
      using c by (rule divide_pos_neg [rotated])
    then show ?thesis unfolding eq using False by (simp only: if_False)
  qed
qed

lemma ring_update_None:
  "ring sys = None \<Longrightarrow> ring (updateSystemPosition sys orbitalPeriod rotationPeriod now) = None"
  by (simp add: updateSystemPosition_def Let_def)

lemma animateBody_snoc:
  "animateBody sys orbitalPeriod rotationPeriod (ts @ [now]) =
   updateSystemPosition (animateBody sys orbitalPeriod rotationPeriod ts)
     orbitalPeriod rotationPeriod now"
  by (induction ts arbitrary: sys) simp_all

lemma animateBody_ringless:
  assumes "ring sys = None" "vy (rotation (planet sys)) = Num y0"
    and "spinStep rotationPeriod = Num inc"
  shows "ring (animateBody sys orbitalPeriod rotationPeriod ts) = None \<and>
         vy (rotation (planet (animateBody sys orbitalPeriod rotationPeriod ts))) =
           Num (y0 + real (length ts) * inc)"
  using assms(1,2)
proof (induction ts arbitrary: sys y0)
  case Nil
  then show ?case by simp
next
  case (Cons t ts)
  let ?s = "updateSystemPosition sys orbitalPeriod rotationPeriod t"
  have r: "ring ?s = None" using Cons.prems(1) by (rule ring_update_None)
  have y: "vy (rotation (planet ?s)) = Num (y0 + inc)"
    using Cons.prems assms(3) by (simp add: spin_update)
  show ?case
    using Cons.IH [OF r y] by (simp add: algebra_simps)
qed

lemma createPlanet_spin:
  "vy (rotation (planet (createPlanet name radius params axialTilt radii))) = Num 0"
  by (simp add: createPlanet_def Let_def setTilt_def addRotationX_def newMesh_def
      split: option.split)

lemma createPlanet_ring_None:
  "ring (createPlanet name radius params axialTilt None) = None"
  by (simp add: createPlanet_def Let_def)

lemma createPlanet_ring_Some:
  "ring (createPlanet name radius params axialTilt (Some rr)) =
     Some (addRotationX newMesh (Num (0.5 * pi + axialTilt * (pi / 180))))"
  by (simp add: createPlanet_def Let_def createRing_def)

text \<open>
  Claim C6. For a body without a ring, with a finite spin angle and a rotation period
  that is not 0, one update adds exactly \<open>(2 PI / rotationPeriod) * 0.1 * (PI / 180)\<close> to
  the spin angle. So in any run of updates, whatever the clock readings are (increasing
  ones among them), the angle after one more update (the run \<open>ts @ [now]\<close>) is larger
  than after the run \<open>ts\<close> when the rotation period is positive and smaller when it is
  negative.
\<close>

theorem spin_ringless:
  assumes "ring sys = None" "vy (rotation (planet sys)) = Num y0" "rotationPeriod \<noteq> 0"
  shows "vy (rotation (planet (updateSystemPosition sys orbitalPeriod rotationPeriod now))) =
           Num (y0 + 2 * pi / rotationPeriod * 0.1 * (pi / 180))
       \<and> (\<exists>y1 y2.
            vy (rotation (planet (animateBody sys orbitalPeriod rotationPeriod ts))) = Num y1 \<and>
            vy (rotation (planet (animateBody sys orbitalPeriod rotationPeriod (ts @ [now])))) = Num y2 \<and>
            y2 = y1 + 2 * pi / rotationPeriod * 0.1 * (pi / 180) \<and>
            (if 0 < rotationPeriod then y1 < y2 else y2 < y1))"
proof -
  define inc where "inc = 2 * pi / rotationPeriod * 0.1 * (pi / 180)"
  have step: "spinStep rotationPeriod = Num inc"
    unfolding inc_def using assms(3) by (rule spinStep_finite)
  have one: "vy (rotation (planet (updateSystemPosition sys orbitalPeriod rotationPeriod now))) =
      Num (y0 + inc)"
    using assms(1,2) step by (simp add: spin_update)
  have before: "vy (rotation (planet (animateBody sys orbitalPeriod rotationPeriod ts))) =
      Num (y0 + real (length ts) * inc)"
    using animateBody_ringless [OF assms(1,2) step] by simp
  have after: "vy (rotation (planet (animateBody sys orbitalPeriod rotationPeriod (ts @ [now])))) =
      Num (y0 + real (length ts) * inc + inc)"
    using animateBody_ringless [OF assms(1,2) step, of orbitalPeriod "ts @ [now]"]
    by (simp add: algebra_simps)
  have sgn: "if 0 < rotationPeriod then 0 < inc else inc < 0"
    unfolding inc_def using assms(3) by (rule spinStep_sign)
  then have mono: "if 0 < rotationPeriod
      then y0 + real (length ts) * inc < y0 + real (length ts) * inc + inc
      else y0 + real (length ts) * inc + inc < y0 + real (length ts) * inc"
    by (simp split: if_splits)
  show ?thesis
    unfolding inc_def [symmetric] using one before after mono by blast
qed

theorem spin_ringless_witness:
  "vy (rotation (planet (updateSystemPosition
      (createPlanet ''venus'' 6.0518
         \<lparr>op_a = 0.723332, op_e = 0.006772, op_i = 3.39458, op_lAN = 76.680, op_aP = 54.884\<rparr>
         177.36 None) 224.70 (- 243) 16))) = Num (0 + 2 * pi / (- 243) * 0.1 * (pi / 180))
   \<and> 0 + 2 * pi / (- 243) * 0.1 * (pi / 180) < (0::real)"
  using spin_ringless [of
      "createPlanet ''venus'' 6.0518
         \<lparr>op_a = 0.723332, op_e = 0.006772, op_i = 3.39458, op_lAN = 76.680, op_aP = 54.884\<rparr>
         177.36 None" 0 "- 243" "224.70" 16 "[]"]
  by (simp add: createPlanet_spin createPlanet_ring_None)

text \<open>
  Claim C7. With a rotation period that is not 0 the increment is
  \<open>spinRate * (PI / 180)\<close> with \<open>spinRate = (2 PI / rotationPeriod) * 0.1\<close>. One update
  adds it to the spin angle twice when the body owns a ring and once when it does not.
\<close>

theorem spin_per_update:
  assumes "rotationPeriod \<noteq> 0" "vy (rotation (planet sys)) = Num y0"
  shows "spinStep rotationPeriod = Num (2 * pi / rotationPeriod * 0.1 * (pi / 180))
       \<and> vy (rotation (planet (updateSystemPosition sys orbitalPeriod rotationPeriod now))) =
           (case ring sys of
              None \<Rightarrow> js_add (Num y0) (spinStep rotationPeriod)
            | Some r \<Rightarrow> js_add (js_add (Num y0) (spinStep rotationPeriod))
                               (spinStep rotationPeriod))
       \<and> vy (rotation (planet (updateSystemPosition sys orbitalPeriod rotationPeriod now))) =
           (case ring sys of
              None \<Rightarrow> Num (y0 + 2 * pi / rotationPeriod * 0.1 * (pi / 180))
            | Some r \<Rightarrow> Num (y0 + 2 * (2 * pi / rotationPeriod * 0.1 * (pi / 180))))"
  using assms by (simp add: spin_update spinStep_finite split: option.split)

theorem spin_per_update_witness:
  "vy (rotation (planet (updateSystemPosition
       (createPlanet ''saturn'' 58.232
          \<lparr>op_a = 9.5826, op_e = 0.0565, op_i = 2.485, op_lAN = 113.665, op_aP = 339.392\<rparr>
          26.73 (Some \<lparr>innerRadius = 66.9, outerRadius = 136.775\<rparr>)) 10855.7 0.44 16))) =
     Num (0 + 2 * (2 * pi / 0.44 * 0.1 * (pi / 180)))
   \<and> vy (rotation (planet (updateSystemPosition
       (createPlanet ''earth'' 6.371
          \<lparr>op_a = 1, op_e = 0.0167086, op_i = 0, op_lAN = - 11.26064, op_aP = 114.20783\<rparr>
          23.44 None) 365.26 1 16))) =
     Num (0 + 2 * pi / 1 * 0.1 * (pi / 180))"
  using spin_per_update [of "0.44"
       "createPlanet ''saturn'' 58.232
          \<lparr>op_a = 9.5826, op_e = 0.0565, op_i = 2.485, op_lAN = 113.665, op_aP = 339.392\<rparr>
          26.73 (Some \<lparr>innerRadius = 66.9, outerRadius = 136.775\<rparr>)" 0 "10855.7" 16]
    spin_per_update [of 1
       "createPlanet ''earth'' 6.371
          \<lparr>op_a = 1, op_e = 0.0167086, op_i = 0, op_lAN = - 11.26064, op_aP = 114.20783\<rparr>
          23.44 None" 0 "365.26" 16]
  by (simp add: createPlanet_spin createPlanet_ring_Some createPlanet_ring_None)

section \<open>The ring\<close>

lemma ringFollows_createPlanet:
  "ringFollows (createPlanet name radius params axialTilt (Some rr))"
  by (simp add: ringFollows_def createPlanet_def Let_def createRing_def setTilt_def
      addRotationX_def newMesh_def)

text \<open>An update keeps the ring on the planet, whatever the periods and the clock reading
  are: both positions are set from the same three reads.\<close>

lemma ringFollows_update:
  assumes "ringFollows sys"
  shows "ringFollows (updateSystemPosition sys orbitalPeriod rotationPeriod now)"
proof -
  obtain r where r: "ring sys = Some r" and p: "position r = position (planet sys)"
    using assms by (auto simp add: ringFollows_def)
  show ?thesis
    using r p by (simp add: ringFollows_def updateSystemPosition_def Let_def addRotationY_def)
qed

lemma ringFollows_animateBody:
  "ringFollows sys \<Longrightarrow> ringFollows (animateBody sys orbitalPeriod rotationPeriod ts)"
  by (induction ts arbitrary: sys) (simp_all add: ringFollows_update)

text \<open>When the reads are in range, the update puts the ring on the planet from any state.\<close>

lemma ringFollows_inRange:
  assumes "ring sys = Some r" "0 < orbitalPeriod" "0 \<le> now" "orbit sys \<noteq> []"
  shows "ringFollows (updateSystemPosition sys orbitalPeriod rotationPeriod now)"
proof -
  have rng: "inRange (orbit sys) (pointIndex (orbit sys) orbitalPeriod now)"
    using assms by (intro pointIndex_inRange)
  show ?thesis
    using assms(1) getters_inRange [OF rng]
    by (simp add: ringFollows_def updateSystemPosition_def Let_def addRotationY_def)
qed

text \<open>For a body that \<open>createPlanet\<close> builds with a ring, the ring stays on the planet
  through any run of frames and one more update, whatever the periods and the clock
  readings are, also where the reads fall outside the path.\<close>

lemma ringFollows_any_run:
  "ringFollows (updateSystemPosition
     (animateBody (createPlanet name radius params axialTilt (Some rr)) p1 r1 ts) p2 r2 now)"
  by (intro ringFollows_update ringFollows_animateBody ringFollows_createPlanet)

lemma createOrbit_unit_first:
  "createOrbit 1 0 0 0 0 ! 0 = Vector3 (Num 100) (Num 0) (Num 0)"
proof -
  have "createOrbit 1 0 0 0 0 = map finitePoint (spec_buildOrbit 1 0 0 0 0)"
    by (rule createOrbit_spec) simp
  then show ?thesis
    by (simp add: spec_buildOrbit_def finitePoint_def spec_point_def spec_ellipse_def
        spec_rotateAboutX_def spec_rotateAboutY_def spec_semiMinor_def del: upt_Suc)
qed

text \<open>
  Claim C8. Take any system that owns a ring, in any state (the ring and the planet may
  be anywhere before the call), a positive orbital period, a clock reading \<open>now \<ge> 0\<close>
  and a path that is not empty. The update writes the sampled point of the path, the one
  at index \<open>floor ((phase mod 1) * (N - 1))\<close>, to the position of the planet and to the
  position of the ring: after the update the ring is present and its position equals the
  position of the body.
\<close>

theorem ring_mirrors_planet:
  assumes "ring sys = Some r" "0 \<le> now" "0 < orbitalPeriod" "orbit sys \<noteq> []"
  shows "\<exists>k. k = \<lfloor>frac (now * (2 * pi / (orbitalPeriod * 86400)) * 300)
                   * (real (length (orbit sys)) - 1)\<rfloor>
          \<and> 0 \<le> k \<and> k < int (length (orbit sys))
          \<and> position (planet (updateSystemPosition sys orbitalPeriod rotationPeriod now)) =
              Vector3 (Some (vx (orbit sys ! nat k))) (Some (vy (orbit sys ! nat k)))
                      (Some (vz (orbit sys ! nat k)))
          \<and> map_option position
                (ring (updateSystemPosition sys orbitalPeriod rotationPeriod now)) =
              Some (Vector3 (Some (vx (orbit sys ! nat k))) (Some (vy (orbit sys ! nat k)))
                            (Some (vz (orbit sys ! nat k))))
          \<and> map_option position
                (ring (updateSystemPosition sys orbitalPeriod rotationPeriod now)) =
              Some (position (planet (updateSystemPosition sys orbitalPeriod rotationPeriod now)))"
proof -
  define k where
    "k = \<lfloor>frac (now * (2 * pi / (orbitalPeriod * 86400) * 300))
           * (real (length (orbit sys)) - 1)\<rfloor>"
  have n1: "1 \<le> length (orbit sys)" using assms(4) by (cases "orbit sys") simp_all
  have idx: "pointIndex (orbit sys) orbitalPeriod now = Num (of_int k)"
    unfolding k_def by (rule pointIndex_finite [OF assms(3,2)])
  have lo: "0 \<le> k" unfolding k_def by (rule scaled_frac_bounds(1) [OF n1])
  have hi: "k < int (length (orbit sys))"
    unfolding k_def by (rule scaled_frac_bounds(2) [OF n1])
  have rng: "inRange (orbit sys) (Num (of_int k))" using lo hi by (rule inRange_of_int)
  have assoc: "now * (2 * pi / (orbitalPeriod * 86400)) * 300 =
               now * (2 * pi / (orbitalPeriod * 86400) * 300)"
    by simp
  have pl: "position (planet (updateSystemPosition sys orbitalPeriod rotationPeriod now)) =
      Vector3 (Some (vx (orbit sys ! nat k))) (Some (vy (orbit sys ! nat k)))
              (Some (vz (orbit sys ! nat k)))"
    unfolding planet_position_update idx getters_inRange [OF rng] slot_of_int by (rule refl)
  have rg: "map_option position
        (ring (updateSystemPosition sys orbitalPeriod rotationPeriod now)) =
      Some (Vector3 (Some (vx (orbit sys ! nat k))) (Some (vy (orbit sys ! nat k)))
                    (Some (vz (orbit sys ! nat k))))"
    using assms(1) getters_inRange [OF rng, of "position r"]
    by (simp add: updateSystemPosition_def Let_def idx slot_of_int)
  show ?thesis
    unfolding assoc k_def [symmetric] using lo hi pl rg by simp
qed

text \<open>A ring that starts away from its planet: the planet at the origin, the ring at
  \<open>(1, 2, 3)\<close>, the path of the unit orbit, clock reading 0. Both end at the first
  point of the path, \<open>(100, 0, 0)\<close>.\<close>

theorem ring_mirrors_planet_witness:
  "map_option position (ring (updateSystemPosition
      \<lparr>planet = newMesh, orbit = createOrbit 1 0 0 0 0,
        ring = Some (newMesh\<lparr>position := Vector3 (Some (Num 1)) (Some (Num 2)) (Some (Num 3))\<rparr>)\<rparr>
      1 1 0)) =
    Some (Vector3 (Some (Num 100)) (Some (Num 0)) (Some (Num 0)))
   \<and> position (planet (updateSystemPosition
      \<lparr>planet = newMesh, orbit = createOrbit 1 0 0 0 0,
        ring = Some (newMesh\<lparr>position := Vector3 (Some (Num 1)) (Some (Num 2)) (Some (Num 3))\<rparr>)\<rparr>
      1 1 0)) =
    Vector3 (Some (Num 100)) (Some (Num 0)) (Some (Num 0))"
  using ring_mirrors_planet [of
      "\<lparr>planet = newMesh, orbit = createOrbit 1 0 0 0 0,
        ring = Some (newMesh\<lparr>position := Vector3 (Some (Num 1)) (Some (Num 2)) (Some (Num 3))\<rparr>)\<rparr>"
      "newMesh\<lparr>position := Vector3 (Some (Num 1)) (Some (Num 2)) (Some (Num 3))\<rparr>" 0 1 1]
  by (simp add: createOrbit_nonempty createOrbit_unit_first)

section \<open>What an update leaves alone\<close>

lemma update_shape:
  "\<exists>p y q. updateSystemPosition sys orbitalPeriod rotationPeriod now =
     sys\<lparr>planet := (planet sys)\<lparr>position := p,
                       rotation := Vector3 (vx (rotation (planet sys))) y
                                           (vz (rotation (planet sys)))\<rparr>,
         ring := map_option (\<lambda>m. m\<lparr>position := q\<rparr>) (ring sys)\<rparr>"
proof (cases "ring sys")
  case None
  then have "updateSystemPosition sys orbitalPeriod rotationPeriod now =
     sys\<lparr>planet := (planet sys)\<lparr>position :=
                 position (planet (updateSystemPosition sys orbitalPeriod rotationPeriod now)),
               rotation := Vector3 (vx (rotation (planet sys)))
                 (vy (rotation (planet (updateSystemPosition sys orbitalPeriod rotationPeriod now))))
                 (vz (rotation (planet sys)))\<rparr>,
         ring := map_option (\<lambda>m. m\<lparr>position := position (planet sys)\<rparr>) (ring sys)\<rparr>"
    by (simp add: updateSystemPosition_def Let_def addRotationY_def)
  then show ?thesis by blast
next
  case (Some r)
  then have "updateSystemPosition sys orbitalPeriod rotationPeriod now =
     sys\<lparr>planet := (planet sys)\<lparr>position :=
                 position (planet (updateSystemPosition sys orbitalPeriod rotationPeriod now)),
               rotation := Vector3 (vx (rotation (planet sys)))
                 (vy (rotation (planet (updateSystemPosition sys orbitalPeriod rotationPeriod now))))
                 (vz (rotation (planet sys)))\<rparr>,
         ring := map_option (\<lambda>m. m\<lparr>position :=
              set_xyz (position r)
                (getX (orbit sys) (pointIndex (orbit sys) orbitalPeriod now))
                (getY (orbit sys) (pointIndex (orbit sys) orbitalPeriod now))
                (getZ (orbit sys) (pointIndex (orbit sys) orbitalPeriod now))\<rparr>) (ring sys)\<rparr>"
    by (simp add: updateSystemPosition_def Let_def addRotationY_def)
  then show ?thesis by blast
qed

text \<open>
  Claim C10. For every system, periods and clock reading, the updated system is the old
  one with at most three things replaced: the position of the body, the \<open>y\<close> angle of the
  body's rotation and, when there is a ring, the position of the ring. In particular
  the points of the orbit are the same as before, a ring is present after the update
  exactly when it was before, and the rotation of the ring is the same as before.
\<close>

theorem update_frame:
  "(\<exists>p y q. updateSystemPosition sys orbitalPeriod rotationPeriod now =
      sys\<lparr>planet := (planet sys)\<lparr>position := p,
                        rotation := Vector3 (vx (rotation (planet sys))) y
                                            (vz (rotation (planet sys)))\<rparr>,
          ring := map_option (\<lambda>m. m\<lparr>position := q\<rparr>) (ring sys)\<rparr>)
   \<and> orbit (updateSystemPosition sys orbitalPeriod rotationPeriod now) = orbit sys
   \<and> map_option rotation (ring (updateSystemPosition sys orbitalPeriod rotationPeriod now)) =
       map_option rotation (ring sys)"
proof -
  have "map_option rotation (ring (updateSystemPosition sys orbitalPeriod rotationPeriod now)) =
      map_option rotation (ring sys)"
    by (cases "ring sys") (simp_all add: updateSystemPosition_def Let_def)
  then show ?thesis
    using update_shape [of sys orbitalPeriod rotationPeriod now] orbit_update by blast
qed

theorem update_frame_witness:
  "orbit (updateSystemPosition
      (createPlanet ''saturn'' 58.232
         \<lparr>op_a = 9.5826, op_e = 0.0565, op_i = 2.485, op_lAN = 113.665, op_aP = 339.392\<rparr>
         26.73 (Some \<lparr>innerRadius = 66.9, outerRadius = 136.775\<rparr>)) 10855.7 0.44 16) =
   createOrbit 9.5826 0.0565 2.485 113.665 339.392
   \<and> map_option rotation (ring (updateSystemPosition
      (createPlanet ''saturn'' 58.232
         \<lparr>op_a = 9.5826, op_e = 0.0565, op_i = 2.485, op_lAN = 113.665, op_aP = 339.392\<rparr>
         26.73 (Some \<lparr>innerRadius = 66.9, outerRadius = 136.775\<rparr>)) 10855.7 0.44 16)) =
   Some (Vector3 (Num (0.5 * pi + 26.73 * (pi / 180))) (Num 0) (Num 0))"
  using update_frame [of
      "createPlanet ''saturn'' 58.232
         \<lparr>op_a = 9.5826, op_e = 0.0565, op_i = 2.485, op_lAN = 113.665, op_aP = 339.392\<rparr>
         26.73 (Some \<lparr>innerRadius = 66.9, outerRadius = 136.775\<rparr>)" "10855.7" "0.44" 16]
  by (simp add: orbit_createPlanet createPlanet_ring_Some addRotationX_def newMesh_def)

end
